theory Spec2Isabelle
  imports Main "HOL-Library.Word"
begin

section \<open>Data model of the typed dispatch layer (include/blacspp/broadcast.hpp)\<close>

text \<open>
  The header declares four overload sets: \<open>gebs2d\<close>, \<open>trbs2d\<close>, \<open>gebr2d\<close> and
  \<open>trbr2d\<close>. Every body converts the enumerated arguments to strings with
  \<open>detail::type_string\<close>, reads \<open>grid.context()\<close> and calls one function of the
  namespace \<open>wrappers\<close>. The headers it includes (\<open>grid.hpp\<close>, \<open>wrappers/broadcast.hpp\<close>,
  \<open>util/type_conversions.hpp\<close>) are not part of the sources at hand, so what they declare is
  either a type parameter or a field of the record \<open>detail\<close> below.

  \<^item> \<open>blacs_int\<close> is a signed machine integer of unknown width: \<open>'b word\<close>, read by \<open>sint\<close>.
    The records and the datatype of calls leave the integer type open (\<open>'i\<close>, \<open>'sz\<close>); the
    overloads fix it to a word.
  \<^item> \<open>std::size_t\<close> is an unsigned machine integer: \<open>'s word\<close>, read by \<open>uint\<close>.
  \<^item> The element type \<open>T\<close> deduced for a pointer argument is a value of type \<open>'ty\<close>.
  \<^item> \<open>Scope\<close>, \<open>Topology\<close>, \<open>Triangle\<close> and \<open>Diagonal\<close> are the type parameters
    \<open>'sc\<close>, \<open>'tp\<close>, \<open>'tr\<close> and \<open>'dg\<close>; the context handle has type \<open>'c\<close>.
\<close>

text \<open>A pointer \<open>T*\<close> or \<open>const T*\<close>: the deduced element type and the address.\<close>

record 'ty pointer =
  elem_type :: 'ty
  address :: nat

text \<open>
  A class-type argument \<open>A\<close>. \<open>data_member\<close> is \<open>None\<close> when the type has no member
  \<open>data()\<close> (\<open>detail::has_data_member_v\<close> is false) and otherwise holds what \<open>A.data()\<close>
  returns; \<open>size_member\<close> does the same for \<open>size()\<close> and \<open>detail::has_size_member_v\<close>.
\<close>

record ('ty, 'sz) container =
  data_member :: "'ty pointer option"
  size_member :: "'sz option"

text \<open>The class \<open>Grid\<close>, of which the header uses the accessor \<open>context()\<close> only.\<close>

record 'c Grid =
  grid_context :: 'c

text \<open>
  The parts of namespace \<open>detail\<close> the header uses: the four overloads of \<open>type_string\<close>
  and the trait behind \<open>enable_if_blacs_supported_t\<close>.
\<close>

record ('sc, 'tp, 'tr, 'dg, 'ty) detail =
  type_string_Scope :: "'sc \<Rightarrow> string"
  type_string_Topology :: "'tp \<Rightarrow> string"
  type_string_Triangle :: "'tr \<Rightarrow> string"
  type_string_Diagonal :: "'dg \<Rightarrow> string"
  blacs_supported :: "'ty \<Rightarrow> bool"

text \<open>
  One call of a function of namespace \<open>wrappers\<close>, with its arguments in the order of the
  call: context, scope token, topology token, (triangle and diagonal tokens,) M, N, A, LDA.
\<close>

datatype ('c, 'i, 'ty) lib_call =
    Wrappers_gebs2d 'c string string 'i 'i "'ty pointer" 'i
  | Wrappers_trbs2d 'c string string string string 'i 'i "'ty pointer" 'i
  | Wrappers_gebr2d 'c string string 'i 'i "'ty pointer" 'i
  | Wrappers_trbr2d 'c string string string string 'i 'i "'ty pointer" 'i

text \<open>
  The state a call runs in: the \<open>Grid\<close> objects and the bytes of memory the caller's
  references and pointers lead to, and the calls made into namespace \<open>wrappers\<close> so far,
  oldest first.
\<close>

record ('c, 'i, 'ty) world =
  grids :: "nat \<Rightarrow> 'c Grid"
  mem :: "nat \<Rightarrow> 8 word"
  calls :: "('c, 'i, 'ty) lib_call list"

text \<open>
  A call that no overload accepts does not compile; the dispatch layer has no other failure.
\<close>

datatype error = No_matching_function

section \<open>The entry points of namespace wrappers\<close>

text \<open>
  Modelled from the spec: \<open>wrappers::gebs2d\<close>, \<open>wrappers::trbs2d\<close>, \<open>wrappers::gebr2d\<close> and
  \<open>wrappers::trbr2d\<close> (\<open>wrappers/broadcast.hpp\<close> is missing). The spec gives them as the
  entry points of an opaque external library, invoked with context handle, scope token,
  topology token, triangle and diagonal tokens where applicable, row count, column count,
  buffer pointer and leading dimension. The model records the call; what the library then
  does with the buffer is the library's.
\<close>

definition wrappers_gebs2d ::
  "'c \<Rightarrow> string \<Rightarrow> string \<Rightarrow> 'b::len word \<Rightarrow> 'b word \<Rightarrow> 'ty pointer \<Rightarrow> 'b word \<Rightarrow>
   ('c, 'b word, 'ty) world \<Rightarrow> ('c, 'b word, 'ty) world" where
  "wrappers_gebs2d ctx SCOPE TOP M N A LDA w =
     w\<lparr>calls := calls w @ [Wrappers_gebs2d ctx SCOPE TOP M N A LDA]\<rparr>"

definition wrappers_trbs2d ::
  "'c \<Rightarrow> string \<Rightarrow> string \<Rightarrow> string \<Rightarrow> string \<Rightarrow> 'b::len word \<Rightarrow> 'b word \<Rightarrow> 'ty pointer \<Rightarrow> 'b word \<Rightarrow>
   ('c, 'b word, 'ty) world \<Rightarrow> ('c, 'b word, 'ty) world" where
  "wrappers_trbs2d ctx SCOPE TOP UPLO DIAG M N A LDA w =
     w\<lparr>calls := calls w @ [Wrappers_trbs2d ctx SCOPE TOP UPLO DIAG M N A LDA]\<rparr>"

definition wrappers_gebr2d ::
  "'c \<Rightarrow> string \<Rightarrow> string \<Rightarrow> 'b::len word \<Rightarrow> 'b word \<Rightarrow> 'ty pointer \<Rightarrow> 'b word \<Rightarrow>
   ('c, 'b word, 'ty) world \<Rightarrow> ('c, 'b word, 'ty) world" where
  "wrappers_gebr2d ctx SCOPE TOP M N A LDA w =
     w\<lparr>calls := calls w @ [Wrappers_gebr2d ctx SCOPE TOP M N A LDA]\<rparr>"

definition wrappers_trbr2d ::
  "'c \<Rightarrow> string \<Rightarrow> string \<Rightarrow> string \<Rightarrow> string \<Rightarrow> 'b::len word \<Rightarrow> 'b word \<Rightarrow> 'ty pointer \<Rightarrow> 'b word \<Rightarrow>
   ('c, 'b word, 'ty) world \<Rightarrow> ('c, 'b word, 'ty) world" where
  "wrappers_trbr2d ctx SCOPE TOP UPLO DIAG M N A LDA w =
     w\<lparr>calls := calls w @ [Wrappers_trbr2d ctx SCOPE TOP UPLO DIAG M N A LDA]\<rparr>"

section \<open>Implicit conversions\<close>

text \<open>
  The size-based overloads pass \<open>A.size()\<close>, a \<open>std::size_t\<close>, where the parameter is a
  \<open>const blacs_int\<close>. The conversion from the unsigned to the signed type keeps the value
  modulo \<open>2 ^ LENGTH('b)\<close>: the low bits of the size, which \<open>sint\<close> then reads as two's
  complement.
\<close>

definition size_t_to_blacs_int :: "'s::len word \<Rightarrow> 'b::len word" where
  "size_t_to_blacs_int n = ucast n"

section \<open>The overloads\<close>

text \<open>
  Each overload is a function from the state to the state after the call, or to
  \<open>No_matching_function\<close> where its \<open>enable_if\<close> removes it from the overload set or a
  call in its body finds no overload. The grid is passed by reference: \<open>grid\<close> is its place
  in \<open>grids\<close>. The source's parameter \<open>top\<close> is \<open>topo\<close> here.
\<close>

text \<open>
  \<open>template <typename T> detail::enable_if_blacs_supported_t<T> gebs2d(const Grid&, Scope,
  Topology, blacs_int M, blacs_int N, const T* A, blacs_int LDA)\<close>.
\<close>

definition gebs2d_ptr ::
  "('sc, 'tp, 'tr, 'dg, 'ty) detail \<Rightarrow> nat \<Rightarrow> 'sc \<Rightarrow> 'tp \<Rightarrow>
   'b::len word \<Rightarrow> 'b word \<Rightarrow> 'ty pointer \<Rightarrow> 'b word \<Rightarrow>
   ('c, 'b word, 'ty) world \<Rightarrow> error + ('c, 'b word, 'ty) world" where
  "gebs2d_ptr d grid scope topo M N A LDA w =
     (if blacs_supported d (elem_type A) then
        let SCOPE = type_string_Scope d scope;
            TOP = type_string_Topology d topo
        in Inr (wrappers_gebs2d (grid_context (grids w grid)) SCOPE TOP M N A LDA w)
      else Inl No_matching_function)"

text \<open>
  \<open>template <class Container> std::enable_if_t<detail::has_data_member_v<Container>>
  gebs2d(const Grid&, Scope, Topology, blacs_int M, blacs_int N, const Container& A,
  blacs_int LDA)\<close>. The body calls \<open>gebs2d\<close> on the pointer \<open>A.data()\<close>, which only the
  pointer overload accepts.
\<close>

definition gebs2d_data ::
  "('sc, 'tp, 'tr, 'dg, 'ty) detail \<Rightarrow> nat \<Rightarrow> 'sc \<Rightarrow> 'tp \<Rightarrow>
   'b::len word \<Rightarrow> 'b word \<Rightarrow> ('ty, 's::len word) container \<Rightarrow> 'b word \<Rightarrow>
   ('c, 'b word, 'ty) world \<Rightarrow> error + ('c, 'b word, 'ty) world" where
  "gebs2d_data d grid scope topo M N A LDA w =
     (case data_member A of
        None \<Rightarrow> Inl No_matching_function
      | Some p \<Rightarrow> gebs2d_ptr d grid scope topo M N p LDA w)"

text \<open>
  \<open>template <class Container> std::enable_if_t<detail::has_size_member_v<Container>>
  gebs2d(const Grid&, Scope, Topology, const Container& A)\<close>. The body calls
  \<open>gebs2d(grid, scope, top, A.size(), 1, A, A.size())\<close>; \<open>A\<close> is no pointer, so only the
  overload for containers with \<open>data()\<close> can accept the call.
\<close>

definition gebs2d_size ::
  "('sc, 'tp, 'tr, 'dg, 'ty) detail \<Rightarrow> nat \<Rightarrow> 'sc \<Rightarrow> 'tp \<Rightarrow> ('ty, 's::len word) container \<Rightarrow>
   ('c, 'b::len word, 'ty) world \<Rightarrow> error + ('c, 'b word, 'ty) world" where
  "gebs2d_size d grid scope topo A w =
     (case size_member A of
        None \<Rightarrow> Inl No_matching_function
      | Some n \<Rightarrow>
          gebs2d_data d grid scope topo (size_t_to_blacs_int n) 1 A (size_t_to_blacs_int n) w)"

text \<open>
  \<open>template <typename T> detail::enable_if_blacs_supported_t<T> trbs2d(const Grid&, Scope,
  Topology, Triangle, Diagonal, blacs_int M, blacs_int N, const T* A, blacs_int LDA)\<close>.
\<close>

definition trbs2d_ptr ::
  "('sc, 'tp, 'tr, 'dg, 'ty) detail \<Rightarrow> nat \<Rightarrow> 'sc \<Rightarrow> 'tp \<Rightarrow> 'tr \<Rightarrow> 'dg \<Rightarrow> 
   'b::len word \<Rightarrow> 'b word \<Rightarrow> 'ty pointer \<Rightarrow> 'b word \<Rightarrow>
   ('c, 'b word, 'ty) world \<Rightarrow> error + ('c, 'b word, 'ty) world" where
  "trbs2d_ptr d grid scope topo uplo diag M N A LDA w =
     (if blacs_supported d (elem_type A) then
        let SCOPE = type_string_Scope d scope;
            TOP = type_string_Topology d topo;
            UPLO = type_string_Triangle d uplo;
            DIAG = type_string_Diagonal d diag
        in Inr (wrappers_trbs2d (grid_context (grids w grid)) SCOPE TOP UPLO DIAG M N A LDA w)
      else Inl No_matching_function)"

text \<open>
  \<open>template <class Container> std::enable_if_t<detail::has_data_member_v<Container>>
  trbs2d(const Grid&, Scope, Topology, Triangle, Diagonal, blacs_int M, blacs_int N, const Container& A,
  blacs_int LDA)\<close>. The body calls \<open>trbs2d\<close> on the pointer \<open>A.data()\<close>, which only the
  pointer overload accepts.
\<close>

definition trbs2d_data ::
  "('sc, 'tp, 'tr, 'dg, 'ty) detail \<Rightarrow> nat \<Rightarrow> 'sc \<Rightarrow> 'tp \<Rightarrow> 'tr \<Rightarrow> 'dg \<Rightarrow> 
   'b::len word \<Rightarrow> 'b word \<Rightarrow> ('ty, 's::len word) container \<Rightarrow> 'b word \<Rightarrow>
   ('c, 'b word, 'ty) world \<Rightarrow> error + ('c, 'b word, 'ty) world" where
  "trbs2d_data d grid scope topo uplo diag M N A LDA w =
     (case data_member A of
        None \<Rightarrow> Inl No_matching_function
      | Some p \<Rightarrow> trbs2d_ptr d grid scope topo uplo diag M N p LDA w)"

text \<open>
  \<open>template <typename T> detail::enable_if_blacs_supported_t<T> gebr2d(const Grid&, Scope,
  Topology, blacs_int M, blacs_int N, T* A, blacs_int LDA)\<close>.
\<close>

definition gebr2d_ptr ::
  "('sc, 'tp, 'tr, 'dg, 'ty) detail \<Rightarrow> nat \<Rightarrow> 'sc \<Rightarrow> 'tp \<Rightarrow>
   'b::len word \<Rightarrow> 'b word \<Rightarrow> 'ty pointer \<Rightarrow> 'b word \<Rightarrow>
   ('c, 'b word, 'ty) world \<Rightarrow> error + ('c, 'b word, 'ty) world" where
  "gebr2d_ptr d grid scope topo M N A LDA w =
     (if blacs_supported d (elem_type A) then
        let SCOPE = type_string_Scope d scope;
            TOP = type_string_Topology d topo
        in Inr (wrappers_gebr2d (grid_context (grids w grid)) SCOPE TOP M N A LDA w)
      else Inl No_matching_function)"

text \<open>
  \<open>template <class Container> std::enable_if_t<detail::has_data_member_v<Container>>
  gebr2d(const Grid&, Scope, Topology, blacs_int M, blacs_int N, Container& A,
  blacs_int LDA)\<close>. The body calls \<open>gebr2d\<close> on the pointer \<open>A.data()\<close>, which only the
  pointer overload accepts.
\<close>

definition gebr2d_data ::
  "('sc, 'tp, 'tr, 'dg, 'ty) detail \<Rightarrow> nat \<Rightarrow> 'sc \<Rightarrow> 'tp \<Rightarrow>
   'b::len word \<Rightarrow> 'b word \<Rightarrow> ('ty, 's::len word) container \<Rightarrow> 'b word \<Rightarrow>
   ('c, 'b word, 'ty) world \<Rightarrow> error + ('c, 'b word, 'ty) world" where
  "gebr2d_data d grid scope topo M N A LDA w =
     (case data_member A of
        None \<Rightarrow> Inl No_matching_function
      | Some p \<Rightarrow> gebr2d_ptr d grid scope topo M N p LDA w)"

text \<open>
  \<open>template <class Container> std::enable_if_t<detail::has_size_member_v<Container>>
  gebr2d(const Grid&, Scope, Topology, Container& A)\<close>. The body calls
  \<open>gebr2d(grid, scope, top, A.size(), 1, A, A.size())\<close>; \<open>A\<close> is no pointer, so only the
  overload for containers with \<open>data()\<close> can accept the call.
\<close>

definition gebr2d_size ::
  "('sc, 'tp, 'tr, 'dg, 'ty) detail \<Rightarrow> nat \<Rightarrow> 'sc \<Rightarrow> 'tp \<Rightarrow> ('ty, 's::len word) container \<Rightarrow>
   ('c, 'b::len word, 'ty) world \<Rightarrow> error + ('c, 'b word, 'ty) world" where
  "gebr2d_size d grid scope topo A w =
     (case size_member A of
        None \<Rightarrow> Inl No_matching_function
      | Some n \<Rightarrow>
          gebr2d_data d grid scope topo (size_t_to_blacs_int n) 1 A (size_t_to_blacs_int n) w)"

text \<open>
  \<open>template <typename T> detail::enable_if_blacs_supported_t<T> trbr2d(const Grid&, Scope,
  Topology, Triangle, Diagonal, blacs_int M, blacs_int N, T* A, blacs_int LDA)\<close>.
\<close>

definition trbr2d_ptr ::
  "('sc, 'tp, 'tr, 'dg, 'ty) detail \<Rightarrow> nat \<Rightarrow> 'sc \<Rightarrow> 'tp \<Rightarrow> 'tr \<Rightarrow> 'dg \<Rightarrow> 
   'b::len word \<Rightarrow> 'b word \<Rightarrow> 'ty pointer \<Rightarrow> 'b word \<Rightarrow>
   ('c, 'b word, 'ty) world \<Rightarrow> error + ('c, 'b word, 'ty) world" where
  "trbr2d_ptr d grid scope topo uplo diag M N A LDA w =
     (if blacs_supported d (elem_type A) then
        let SCOPE = type_string_Scope d scope;
            TOP = type_string_Topology d topo;
            UPLO = type_string_Triangle d uplo;
            DIAG = type_string_Diagonal d diag
        in Inr (wrappers_trbr2d (grid_context (grids w grid)) SCOPE TOP UPLO DIAG M N A LDA w)
      else Inl No_matching_function)"

text \<open>
  \<open>template <class Container> std::enable_if_t<detail::has_data_member_v<Container>>
  trbr2d(const Grid&, Scope, Topology, Triangle, Diagonal, blacs_int M, blacs_int N, Container& A,
  blacs_int LDA)\<close>. The body calls \<open>trbr2d\<close> on the pointer \<open>A.data()\<close>, which only the
  pointer overload accepts.
\<close>

definition trbr2d_data ::
  "('sc, 'tp, 'tr, 'dg, 'ty) detail \<Rightarrow> nat \<Rightarrow> 'sc \<Rightarrow> 'tp \<Rightarrow> 'tr \<Rightarrow> 'dg \<Rightarrow> 
   'b::len word \<Rightarrow> 'b word \<Rightarrow> ('ty, 's::len word) container \<Rightarrow> 'b word \<Rightarrow>
   ('c, 'b word, 'ty) world \<Rightarrow> error + ('c, 'b word, 'ty) world" where
  "trbr2d_data d grid scope topo uplo diag M N A LDA w =
     (case data_member A of
        None \<Rightarrow> Inl No_matching_function
      | Some p \<Rightarrow> trbr2d_ptr d grid scope topo uplo diag M N p LDA w)"

section \<open>Overload resolution at a call site\<close>

text \<open>
  A call names an overload set and the compiler chooses by the number and the types of the
  arguments. After the grid and the enumerated arguments a call passes either
  \<open>M, N, A, LDA\<close> or \<open>A\<close> alone, and \<open>A\<close> is a pointer or an object of class type. Template
  deduction binds \<open>const T*\<close> and \<open>T*\<close> to pointers only, and a pointer type has neither
  \<open>data()\<close> nor \<open>size()\<close>.
\<close>

datatype ('ty, 'sz) argument =
    Pointer "'ty pointer"
  | Object "('ty, 'sz) container"

datatype ('i, 'ty, 'sz) buffer_args =
    Shaped 'i 'i "('ty, 'sz) argument" 'i
  | Unshaped "('ty, 'sz) argument"

text \<open>The overload set \<open>gebs2d\<close>: three overloads.\<close>

fun gebs2d ::
  "('sc, 'tp, 'tr, 'dg, 'ty) detail \<Rightarrow> nat \<Rightarrow> 'sc \<Rightarrow> 'tp \<Rightarrow>
   ('b::len word, 'ty, 's::len word) buffer_args \<Rightarrow>
   ('c, 'b word, 'ty) world \<Rightarrow> error + ('c, 'b word, 'ty) world" where
  "gebs2d d grid scope topo (Shaped M N (Pointer A) LDA) w =
     gebs2d_ptr d grid scope topo M N A LDA w"
| "gebs2d d grid scope topo (Shaped M N (Object A) LDA) w =
     gebs2d_data d grid scope topo M N A LDA w"
| "gebs2d d grid scope topo (Unshaped (Object A)) w = gebs2d_size d grid scope topo A w"
| "gebs2d d grid scope topo (Unshaped (Pointer A)) w = Inl No_matching_function"

text \<open>The overload set \<open>trbs2d\<close>: two overloads, none of which takes the buffer without \<open>M\<close>, \<open>N\<close> and \<open>LDA\<close>.\<close>

fun trbs2d ::
  "('sc, 'tp, 'tr, 'dg, 'ty) detail \<Rightarrow> nat \<Rightarrow> 'sc \<Rightarrow> 'tp \<Rightarrow> 'tr \<Rightarrow> 'dg \<Rightarrow> 
   ('b::len word, 'ty, 's::len word) buffer_args \<Rightarrow>
   ('c, 'b word, 'ty) world \<Rightarrow> error + ('c, 'b word, 'ty) world" where
  "trbs2d d grid scope topo uplo diag (Shaped M N (Pointer A) LDA) w =
     trbs2d_ptr d grid scope topo uplo diag M N A LDA w"
| "trbs2d d grid scope topo uplo diag (Shaped M N (Object A) LDA) w =
     trbs2d_data d grid scope topo uplo diag M N A LDA w"
| "trbs2d d grid scope topo uplo diag (Unshaped a) w = Inl No_matching_function"

text \<open>The overload set \<open>gebr2d\<close>: three overloads.\<close>

fun gebr2d ::
  "('sc, 'tp, 'tr, 'dg, 'ty) detail \<Rightarrow> nat \<Rightarrow> 'sc \<Rightarrow> 'tp \<Rightarrow>
   ('b::len word, 'ty, 's::len word) buffer_args \<Rightarrow>
   ('c, 'b word, 'ty) world \<Rightarrow> error + ('c, 'b word, 'ty) world" where
  "gebr2d d grid scope topo (Shaped M N (Pointer A) LDA) w =
     gebr2d_ptr d grid scope topo M N A LDA w"
| "gebr2d d grid scope topo (Shaped M N (Object A) LDA) w =
     gebr2d_data d grid scope topo M N A LDA w"
| "gebr2d d grid scope topo (Unshaped (Object A)) w = gebr2d_size d grid scope topo A w"
| "gebr2d d grid scope topo (Unshaped (Pointer A)) w = Inl No_matching_function"

text \<open>The overload set \<open>trbr2d\<close>: two overloads, none of which takes the buffer without \<open>M\<close>, \<open>N\<close> and \<open>LDA\<close>.\<close>

fun trbr2d ::
  "('sc, 'tp, 'tr, 'dg, 'ty) detail \<Rightarrow> nat \<Rightarrow> 'sc \<Rightarrow> 'tp \<Rightarrow> 'tr \<Rightarrow> 'dg \<Rightarrow> 
   ('b::len word, 'ty, 's::len word) buffer_args \<Rightarrow>
   ('c, 'b word, 'ty) world \<Rightarrow> error + ('c, 'b word, 'ty) world" where
  "trbr2d d grid scope topo uplo diag (Shaped M N (Pointer A) LDA) w =
     trbr2d_ptr d grid scope topo uplo diag M N A LDA w"
| "trbr2d d grid scope topo uplo diag (Shaped M N (Object A) LDA) w =
     trbr2d_data d grid scope topo uplo diag M N A LDA w"
| "trbr2d d grid scope topo uplo diag (Unshaped a) w = Inl No_matching_function"

section \<open>A concrete instance\<close>

text \<open>
  An instance on which the theorems below are evaluated: the enumerations by their
  underlying numbers, element types by name, a 32-bit \<open>blacs_int\<close> and a 64-bit
  \<open>std::size_t\<close>. Its tokens stand in for those of \<open>util/type_conversions.hpp\<close>.
\<close>

definition sample_detail :: "(nat, nat, nat, nat, string) detail" where
  "sample_detail =
     \<lparr>type_string_Scope = (\<lambda>s. if s = 0 then ''All'' else if s = 1 then ''Row'' else ''Column''),
      type_string_Topology = (\<lambda>t. if t = 0 then ''I'' else ''T''),
      type_string_Triangle = (\<lambda>u. if u = 0 then ''Upper'' else ''Lower''),
      type_string_Diagonal = (\<lambda>g. if g = 0 then ''Unit'' else ''NonUnit''),
      blacs_supported = (\<lambda>T. T \<in> set [''int'', ''float'', ''double''])\<rparr>"

definition sample_world :: "(int, 32 word, string) world" where
  "sample_world = \<lparr>grids = (\<lambda>g. \<lparr>grid_context = 7\<rparr>), mem = (\<lambda>a. 0), calls = []\<rparr>"

definition sample_ptr :: "string pointer" where
  "sample_ptr = \<lparr>elem_type = ''double'', address = 4096\<rparr>"

definition sample_vector :: "(string, 64 word) container" where
  "sample_vector = \<lparr>data_member = Some sample_ptr, size_member = Some 3\<rparr>"

section \<open>Shared lemmas\<close>

text \<open>Recording a call leaves the grids and the memory as they are.\<close>

lemma wrappers_frame:
  "grids (wrappers_gebs2d ctx S T M N A LDA w) = grids w"
  "mem (wrappers_gebs2d ctx S T M N A LDA w) = mem w"
  "grids (wrappers_trbs2d ctx S T U G M N A LDA w) = grids w"
  "mem (wrappers_trbs2d ctx S T U G M N A LDA w) = mem w"
  by (simp_all add: wrappers_gebs2d_def wrappers_trbs2d_def)

lemma gebs2d_frame:
  "gebs2d d grid scope topo args w = Inr w' \<Longrightarrow> grids w' = grids w \<and> mem w' = mem w"
  by (induction d grid scope topo args w rule: gebs2d.induct)
     (auto simp: gebs2d_ptr_def gebs2d_data_def gebs2d_size_def wrappers_frame
           split: if_splits option.splits)

lemma trbs2d_frame:
  "trbs2d d grid scope topo uplo diag args w = Inr w' \<Longrightarrow>
   grids w' = grids w \<and> mem w' = mem w"
  by (induction d grid scope topo uplo diag args w rule: trbs2d.induct)
     (auto simp: trbs2d_ptr_def trbs2d_data_def wrappers_frame
           split: if_splits option.splits)

text \<open>What a size-based overload hands to the library, when its call compiles.\<close>

lemma gebs2d_size_forward:
  assumes "size_member A = Some n" and "data_member A = Some p"
    and "blacs_supported d (elem_type p)"
  shows "gebs2d_size d grid scope topo A w =
      Inr (w\<lparr>calls := calls w @ [Wrappers_gebs2d (grid_context (grids w grid))
         (type_string_Scope d scope) (type_string_Topology d topo)
         (size_t_to_blacs_int n) 1 p (size_t_to_blacs_int n)]\<rparr>)"
  using assms by (simp add: gebs2d_size_def gebs2d_data_def gebs2d_ptr_def wrappers_gebs2d_def)

lemma gebr2d_size_forward:
  assumes "size_member A = Some n" and "data_member A = Some p"
    and "blacs_supported d (elem_type p)"
  shows "gebr2d_size d grid scope topo A w =
      Inr (w\<lparr>calls := calls w @ [Wrappers_gebr2d (grid_context (grids w grid))
         (type_string_Scope d scope) (type_string_Topology d topo)
         (size_t_to_blacs_int n) 1 p (size_t_to_blacs_int n)]\<rparr>)"
  using assms by (simp add: gebr2d_size_def gebr2d_data_def gebr2d_ptr_def wrappers_gebr2d_def)

text \<open>The signed value of a converted size, in plain arithmetic.\<close>

lemma sint_size_t_to_blacs_int:
  fixes n :: "'s::len word"
  shows "sint (size_t_to_blacs_int n :: 'b::len word) =
         (uint n + 2 ^ (LENGTH('b) - 1)) mod 2 ^ LENGTH('b) - 2 ^ (LENGTH('b) - 1)"
proof -
  have "sint (ucast n :: 'b word) = signed_take_bit (LENGTH('b) - Suc 0) (uint n)"
    by (rule signed_ucast_eq)
  also have "\<dots> = take_bit (Suc (LENGTH('b) - Suc 0)) (uint n + 2 ^ (LENGTH('b) - Suc 0))
                    - 2 ^ (LENGTH('b) - Suc 0)"
    by (rule signed_take_bit_eq_take_bit_shift)
  finally show ?thesis
    by (simp add: size_t_to_blacs_int_def take_bit_eq_mod)
qed

lemma sint_size_t_to_blacs_int_neq:
  fixes n :: "'s::len word"
  assumes "2 ^ (LENGTH('b::len) - 1) - 1 < uint n"
  shows "sint (size_t_to_blacs_int n :: 'b word) \<noteq> uint n"
proof -
  have "sint (size_t_to_blacs_int n :: 'b word) < 2 ^ (LENGTH('b) - 1)"
    by (rule sint_lt)
  with assms show ?thesis by simp
qed

section \<open>The pointer overloads forward their arguments\<close>

text \<open>
  Claim C1. For a supported element type and any grid, scope, topology, \<open>M\<close>, \<open>N\<close>, \<open>A\<close>
  and \<open>LDA\<close>, the pointer overload of \<open>gebs2d\<close> checks none of \<open>M\<close>, \<open>N\<close>, \<open>LDA\<close> and
  the pointer: it always returns, and the state it returns is the old one with exactly one
  more call, to \<open>wrappers::gebs2d\<close>, whose arguments are \<open>grid.context()\<close>, the tokens of
  scope and topology, and \<open>M\<close>, \<open>N\<close>, \<open>A\<close>, \<open>LDA\<close> as they came in. The pointer overload
  of \<open>gebr2d\<close> does the same with \<open>wrappers::gebr2d\<close>.
\<close>

theorem gebs2d_gebr2d_ptr_forward:
  "blacs_supported d (elem_type A) \<Longrightarrow>
   gebs2d_ptr d grid scope topo M N A LDA w =
     Inr (w\<lparr>calls := calls w @ [Wrappers_gebs2d (grid_context (grids w grid))
        (type_string_Scope d scope) (type_string_Topology d topo) M N A LDA]\<rparr>) \<and>
   gebr2d_ptr d grid scope topo M N A LDA w =
     Inr (w\<lparr>calls := calls w @ [Wrappers_gebr2d (grid_context (grids w grid))
        (type_string_Scope d scope) (type_string_Topology d topo) M N A LDA]\<rparr>)"
  by (simp add: gebs2d_ptr_def gebr2d_ptr_def wrappers_gebs2d_def wrappers_gebr2d_def)

text \<open>
  The instance of C1 at a negative row count, a zero column count, a leading dimension
  below the row count and a null pointer: nothing is rejected.
\<close>

theorem gebs2d_gebr2d_ptr_forward_witness:
  "blacs_supported sample_detail (elem_type (sample_ptr\<lparr>address := 0\<rparr>)) \<and>
   gebs2d_ptr sample_detail 0 1 0 (- 5) 0 (sample_ptr\<lparr>address := 0\<rparr>) 2 sample_world =
     Inr (sample_world\<lparr>calls :=
       [Wrappers_gebs2d 7 ''Row'' ''I'' (- 5) 0 (sample_ptr\<lparr>address := 0\<rparr>) 2]\<rparr>) \<and>
   gebr2d_ptr sample_detail 0 1 0 (- 5) 0 (sample_ptr\<lparr>address := 0\<rparr>) 2 sample_world =
     Inr (sample_world\<lparr>calls :=
       [Wrappers_gebr2d 7 ''Row'' ''I'' (- 5) 0 (sample_ptr\<lparr>address := 0\<rparr>) 2]\<rparr>)"
  using gebs2d_gebr2d_ptr_forward
    [of sample_detail "sample_ptr\<lparr>address := 0\<rparr>" 0 1 0 "- 5" 0 2 sample_world]
  by (simp add: sample_detail_def sample_ptr_def sample_world_def)

section \<open>The size-based overloads against the explicitly shaped ones\<close>

text \<open>
  Claim C2. For every container with a \<open>size()\<close>, the calls \<open>gebs2d(grid, scope, top, A)\<close>
  and \<open>gebr2d(grid, scope, top, A)\<close> do exactly what the calls with explicit shape do on the
  same container with rows \<open>A.size()\<close>, one column and leading dimension \<open>A.size()\<close>: the
  same call into the library, or the same rejection where the container has no \<open>data()\<close>
  or its element type is not supported.
\<close>

theorem size_overload_eq_shaped:
  "size_member A = Some n \<Longrightarrow>
   gebs2d d grid scope topo (Unshaped (Object A)) w =
     gebs2d d grid scope topo
       (Shaped (size_t_to_blacs_int n) 1 (Object A) (size_t_to_blacs_int n)) w \<and>
   gebr2d d grid scope topo (Unshaped (Object A)) w =
     gebr2d d grid scope topo
       (Shaped (size_t_to_blacs_int n) 1 (Object A) (size_t_to_blacs_int n)) w"
  by (simp add: gebs2d_size_def gebr2d_size_def)

theorem size_overload_eq_shaped_witness:
  "size_member sample_vector = Some 3 \<and>
   gebs2d sample_detail 0 1 0 (Unshaped (Object sample_vector)) sample_world =
     gebs2d sample_detail 0 1 0 (Shaped 3 1 (Object sample_vector) 3) sample_world \<and>
   gebr2d sample_detail 0 1 0 (Unshaped (Object sample_vector)) sample_world =
     gebr2d sample_detail 0 1 0 (Shaped 3 1 (Object sample_vector) 3) sample_world"
proof -
  have size: "size_member sample_vector = Some 3"
    by (simp add: sample_vector_def)
  have conv: "(size_t_to_blacs_int (3 :: 64 word) :: 32 word) = 3"
    by (simp add: size_t_to_blacs_int_def)
  from size_overload_eq_shaped [OF size, of sample_detail 0 1 0 sample_world] size conv
  show ?thesis by simp
qed

section \<open>The container overloads against the pointer overloads\<close>

text \<open>
  Claim C8. For each of \<open>gebs2d\<close>, \<open>trbs2d\<close>, \<open>gebr2d\<close> and \<open>trbr2d\<close>, the call with a
  container that has a \<open>data()\<close> member and explicit \<open>M\<close>, \<open>N\<close>, \<open>LDA\<close> equals the call of
  the pointer overload on \<open>A.data()\<close> with the same grid, enumerated arguments and shape.
\<close>

theorem data_overload_eq_ptr:
  "data_member A = Some p \<Longrightarrow>
   gebs2d d grid scope topo (Shaped M N (Object A) LDA) w =
     gebs2d d grid scope topo (Shaped M N (Pointer p) LDA) w \<and>
   trbs2d d grid scope topo uplo diag (Shaped M N (Object A) LDA) w =
     trbs2d d grid scope topo uplo diag (Shaped M N (Pointer p) LDA) w \<and>
   gebr2d d grid scope topo (Shaped M N (Object A) LDA) w =
     gebr2d d grid scope topo (Shaped M N (Pointer p) LDA) w \<and>
   trbr2d d grid scope topo uplo diag (Shaped M N (Object A) LDA) w =
     trbr2d d grid scope topo uplo diag (Shaped M N (Pointer p) LDA) w"
  by (simp add: gebs2d_data_def trbs2d_data_def gebr2d_data_def trbr2d_data_def)

theorem data_overload_eq_ptr_witness:
  "data_member sample_vector = Some sample_ptr \<and>
   gebs2d sample_detail 0 1 0 (Shaped 2 3 (Object sample_vector) 2) sample_world =
     gebs2d sample_detail 0 1 0 (Shaped 2 3 (Pointer sample_ptr) 2) sample_world \<and>
   trbs2d sample_detail 0 1 0 0 1 (Shaped 2 3 (Object sample_vector) 2) sample_world =
     trbs2d sample_detail 0 1 0 0 1 (Shaped 2 3 (Pointer sample_ptr) 2) sample_world \<and>
   gebr2d sample_detail 0 1 0 (Shaped 2 3 (Object sample_vector) 2) sample_world =
     gebr2d sample_detail 0 1 0 (Shaped 2 3 (Pointer sample_ptr) 2) sample_world \<and>
   trbr2d sample_detail 0 1 0 0 1 (Shaped 2 3 (Object sample_vector) 2) sample_world =
     trbr2d sample_detail 0 1 0 0 1 (Shaped 2 3 (Pointer sample_ptr) 2) sample_world"
proof -
  have data: "data_member sample_vector = Some sample_ptr"
    by (simp add: sample_vector_def)
  from data_overload_eq_ptr [OF data, of sample_detail 0 1 0 2 3 2 sample_world 0 1] data
  show ?thesis by simp
qed

section \<open>Unsupported element types\<close>

text \<open>
  Claim C5. The pointer overloads of \<open>gebs2d\<close>, \<open>trbs2d\<close>, \<open>gebr2d\<close> and \<open>trbr2d\<close> exist
  for supported element types only: a call with a pointer to an unsupported element type
  finds no overload in any of the four sets. The call is rejected when it is compiled; no
  state results and nothing reaches the library.
\<close>

theorem unsupported_type_rejected:
  "\<not> blacs_supported d (elem_type A) \<Longrightarrow>
   gebs2d d grid scope topo (Shaped M N (Pointer A) LDA :: ('b::len word, 'ty, 's::len word) buffer_args) w =
     Inl No_matching_function \<and>
   trbs2d d grid scope topo uplo diag (Shaped M N (Pointer A) LDA :: ('b::len word, 'ty, 's::len word) buffer_args) w =
     Inl No_matching_function \<and>
   gebr2d d grid scope topo (Shaped M N (Pointer A) LDA :: ('b::len word, 'ty, 's::len word) buffer_args) w =
     Inl No_matching_function \<and>
   trbr2d d grid scope topo uplo diag (Shaped M N (Pointer A) LDA :: ('b::len word, 'ty, 's::len word) buffer_args) w =
     Inl No_matching_function"
  by (simp add: gebs2d_ptr_def trbs2d_ptr_def gebr2d_ptr_def trbr2d_ptr_def)

theorem unsupported_type_rejected_witness:
  "\<not> blacs_supported sample_detail (elem_type (sample_ptr\<lparr>elem_type := ''bool''\<rparr>)) \<and>
   gebs2d sample_detail 0 1 0
     (Shaped 2 3 (Pointer (sample_ptr\<lparr>elem_type := ''bool''\<rparr>)) 2 :: (32 word, string, 64 word) buffer_args) sample_world =
     Inl No_matching_function \<and>
   trbs2d sample_detail 0 1 0 0 1
     (Shaped 2 3 (Pointer (sample_ptr\<lparr>elem_type := ''bool''\<rparr>)) 2 :: (32 word, string, 64 word) buffer_args) sample_world =
     Inl No_matching_function \<and>
   gebr2d sample_detail 0 1 0
     (Shaped 2 3 (Pointer (sample_ptr\<lparr>elem_type := ''bool''\<rparr>)) 2 :: (32 word, string, 64 word) buffer_args) sample_world =
     Inl No_matching_function \<and>
   trbr2d sample_detail 0 1 0 0 1
     (Shaped 2 3 (Pointer (sample_ptr\<lparr>elem_type := ''bool''\<rparr>)) 2 :: (32 word, string, 64 word) buffer_args) sample_world =
     Inl No_matching_function"
proof -
  have unsupported:
    "\<not> blacs_supported sample_detail (elem_type (sample_ptr\<lparr>elem_type := ''bool''\<rparr>))"
    by (simp add: sample_detail_def)
  from unsupported_type_rejected
    [OF unsupported, of 0 1 0 2 3 2 sample_world 0 1, where ?'s = "64"] unsupported
  show ?thesis by simp
qed

section \<open>Narrowing of the size\<close>

text \<open>
  Claim C9. The size-based overloads of \<open>gebs2d\<close> and \<open>gebr2d\<close> pass the container's
  \<open>std::size_t\<close> size as row count and as leading dimension, both of the signed type
  \<open>blacs_int\<close> of some width \<open>w\<close>. What the library receives is the size reduced modulo
  \<open>2 ^ w\<close> and read as a signed number; for every size above the largest \<open>blacs_int\<close>,
  \<open>2 ^ (w - 1) - 1\<close>, that is not the size.
\<close>

theorem size_overloads_narrow_size:
  fixes n :: "'s::len word" and w :: "('c, 'b::len word, 'ty) world"
  assumes "size_member A = Some n" and "data_member A = Some p"
    and "blacs_supported d (elem_type p)"
  shows
   "gebs2d_size d grid scope topo A w =
      Inr (w\<lparr>calls := calls w @ [Wrappers_gebs2d (grid_context (grids w grid))
         (type_string_Scope d scope) (type_string_Topology d topo)
         (size_t_to_blacs_int n) 1 p (size_t_to_blacs_int n)]\<rparr>) \<and>
    gebr2d_size d grid scope topo A w =
      Inr (w\<lparr>calls := calls w @ [Wrappers_gebr2d (grid_context (grids w grid))
         (type_string_Scope d scope) (type_string_Topology d topo)
         (size_t_to_blacs_int n) 1 p (size_t_to_blacs_int n)]\<rparr>) \<and>
    sint (size_t_to_blacs_int n :: 'b word) =
      (uint n + 2 ^ (LENGTH('b) - 1)) mod 2 ^ LENGTH('b) - 2 ^ (LENGTH('b) - 1) \<and>
    (2 ^ (LENGTH('b) - 1) - 1 < uint n \<longrightarrow>
       sint (size_t_to_blacs_int n :: 'b word) \<noteq> uint n)"
proof (intro conjI impI)
  show "gebs2d_size d grid scope topo A w =
      Inr (w\<lparr>calls := calls w @ [Wrappers_gebs2d (grid_context (grids w grid))
         (type_string_Scope d scope) (type_string_Topology d topo)
         (size_t_to_blacs_int n) 1 p (size_t_to_blacs_int n)]\<rparr>)"
    using assms by (rule gebs2d_size_forward)
  show "gebr2d_size d grid scope topo A w =
      Inr (w\<lparr>calls := calls w @ [Wrappers_gebr2d (grid_context (grids w grid))
         (type_string_Scope d scope) (type_string_Topology d topo)
         (size_t_to_blacs_int n) 1 p (size_t_to_blacs_int n)]\<rparr>)"
    using assms by (rule gebr2d_size_forward)
  show "sint (size_t_to_blacs_int n :: 'b word) =
      (uint n + 2 ^ (LENGTH('b) - 1)) mod 2 ^ LENGTH('b) - 2 ^ (LENGTH('b) - 1)"
    by (rule sint_size_t_to_blacs_int)
  show "sint (size_t_to_blacs_int n :: 'b word) \<noteq> uint n"
    if "2 ^ (LENGTH('b) - 1) - 1 < uint n"
    using that by (rule sint_size_t_to_blacs_int_neq)
qed

text \<open>
  The instance of C9 at a container of \<open>2 ^ 31\<close> elements with a 64-bit \<open>std::size_t\<close> and
  a 32-bit \<open>blacs_int\<close>: the library is handed \<open>- 2 ^ 31\<close> rows.
\<close>

theorem size_overloads_narrow_size_witness:
  "size_member (sample_vector\<lparr>size_member := Some 2147483648\<rparr>) = Some 2147483648 \<and>
   data_member (sample_vector\<lparr>size_member := Some 2147483648\<rparr>) = Some sample_ptr \<and>
   blacs_supported sample_detail (elem_type sample_ptr) \<and>
   (2 :: int) ^ (LENGTH(32) - 1) - 1 < uint (2147483648 :: 64 word) \<and>
   gebs2d_size sample_detail 0 1 0 (sample_vector\<lparr>size_member := Some 2147483648\<rparr>)
       sample_world =
     Inr (sample_world\<lparr>calls :=
       [Wrappers_gebs2d 7 ''Row'' ''I'' (- 2147483648) 1 sample_ptr (- 2147483648)]\<rparr>) \<and>
   gebr2d_size sample_detail 0 1 0 (sample_vector\<lparr>size_member := Some 2147483648\<rparr>)
       sample_world =
     Inr (sample_world\<lparr>calls :=
       [Wrappers_gebr2d 7 ''Row'' ''I'' (- 2147483648) 1 sample_ptr (- 2147483648)]\<rparr>) \<and>
   sint (size_t_to_blacs_int (2147483648 :: 64 word) :: 32 word) = - 2147483648 \<and>
   sint (size_t_to_blacs_int (2147483648 :: 64 word) :: 32 word) \<noteq>
     uint (2147483648 :: 64 word)"
proof -
  let ?A = "sample_vector\<lparr>size_member := Some (2147483648 :: 64 word)\<rparr>"
  have size: "size_member ?A = Some 2147483648"
    by simp
  have data: "data_member ?A = Some sample_ptr"
    by (simp add: sample_vector_def)
  have supported: "blacs_supported sample_detail (elem_type sample_ptr)"
    by (simp add: sample_detail_def sample_ptr_def)
  have large: "(2 :: int) ^ (LENGTH(32) - 1) - 1 < uint (2147483648 :: 64 word)"
    by simp
  have conv: "(size_t_to_blacs_int (2147483648 :: 64 word) :: 32 word) = - 2147483648"
    by (simp add: size_t_to_blacs_int_def)
  from size_overloads_narrow_size [OF size data supported, of 0 1 0 sample_world]
    size data supported large conv
  show ?thesis
    by (simp add: sample_detail_def sample_world_def)
qed

section \<open>The send operations write nothing\<close>

text \<open>
  Claim C10. A send, \<open>gebs2d\<close> or \<open>trbs2d\<close> through any of their overloads, leaves the grid
  objects and the memory, and so the caller's buffer, as they were: the overloads take the
  grid by reference to const and the buffer by pointer to const or by reference to a const
  container, and write through neither.
\<close>

theorem send_leaves_grid_and_buffer:
  "(gebs2d d grid scope topo args w = Inr w' \<longrightarrow> grids w' = grids w \<and> mem w' = mem w) \<and>
   (trbs2d d grid scope topo uplo diag args' w = Inr w'' \<longrightarrow>
      grids w'' = grids w \<and> mem w'' = mem w)"
  by (auto dest: gebs2d_frame trbs2d_frame)

theorem send_leaves_grid_and_buffer_witness:
  "gebs2d sample_detail 0 1 0 (Unshaped (Object sample_vector)) sample_world =
     Inr (sample_world\<lparr>calls := [Wrappers_gebs2d 7 ''Row'' ''I'' 3 1 sample_ptr 3]\<rparr>) \<and>
   grids (sample_world\<lparr>calls := [Wrappers_gebs2d 7 ''Row'' ''I'' 3 1 sample_ptr 3]\<rparr>) =
     grids sample_world \<and>
   mem (sample_world\<lparr>calls := [Wrappers_gebs2d 7 ''Row'' ''I'' 3 1 sample_ptr 3]\<rparr>) =
     mem sample_world \<and>
   trbs2d sample_detail 0 1 0 0 1 (Shaped 3 3 (Object sample_vector) 3) sample_world =
     Inr (sample_world\<lparr>calls :=
       [Wrappers_trbs2d 7 ''Row'' ''I'' ''Upper'' ''NonUnit'' 3 3 sample_ptr 3]\<rparr>) \<and>
   grids (sample_world\<lparr>calls :=
       [Wrappers_trbs2d 7 ''Row'' ''I'' ''Upper'' ''NonUnit'' 3 3 sample_ptr 3]\<rparr>) =
     grids sample_world \<and>
   mem (sample_world\<lparr>calls :=
       [Wrappers_trbs2d 7 ''Row'' ''I'' ''Upper'' ''NonUnit'' 3 3 sample_ptr 3]\<rparr>) =
     mem sample_world"
proof -
  have ge: "gebs2d sample_detail 0 1 0 (Unshaped (Object sample_vector)) sample_world =
     Inr (sample_world\<lparr>calls := [Wrappers_gebs2d 7 ''Row'' ''I'' 3 1 sample_ptr 3]\<rparr>)"
    by (simp add: gebs2d_size_def gebs2d_data_def gebs2d_ptr_def wrappers_gebs2d_def
        size_t_to_blacs_int_def sample_detail_def sample_world_def sample_vector_def
        sample_ptr_def)
  have tr: "trbs2d sample_detail 0 1 0 0 1 (Shaped 3 3 (Object sample_vector) 3) sample_world =
     Inr (sample_world\<lparr>calls :=
       [Wrappers_trbs2d 7 ''Row'' ''I'' ''Upper'' ''NonUnit'' 3 3 sample_ptr 3]\<rparr>)"
    by (simp add: trbs2d_data_def trbs2d_ptr_def wrappers_trbs2d_def
        sample_detail_def sample_world_def sample_vector_def sample_ptr_def)
  from send_leaves_grid_and_buffer
    [of sample_detail 0 1 0 "Unshaped (Object sample_vector)" sample_world
      "sample_world\<lparr>calls := [Wrappers_gebs2d 7 ''Row'' ''I'' 3 1 sample_ptr 3]\<rparr>" 0 1
      "Shaped 3 3 (Object sample_vector) 3"
      "sample_world\<lparr>calls :=
         [Wrappers_trbs2d 7 ''Row'' ''I'' ''Upper'' ''NonUnit'' 3 3 sample_ptr 3]\<rparr>"]
    ge tr
  show ?thesis by simp
qed

section \<open>Which operations have a size-based overload\<close>

text \<open>
  Claim C4 says that each of the four operations has a convenience overload that takes the
  grid, the enumerated arguments and a container with a size, and defaults rows to the
  size, columns to 1 and the leading dimension to the size. The header declares such an
  overload for \<open>gebs2d\<close> and \<open>gebr2d\<close> only. On a vector of three doubles the
  triangular send and receive without \<open>M\<close>, \<open>N\<close>, \<open>LDA\<close> find no overload, while the
  calls with rows 3, one column and leading dimension 3 are accepted.
\<close>

theorem triangular_size_overload_counterexample:
  "trbs2d sample_detail 0 1 0 0 1 (Unshaped (Object sample_vector)) sample_world =
     Inl No_matching_function \<and>
   trbs2d sample_detail 0 1 0 0 1 (Shaped 3 1 (Object sample_vector) 3) sample_world =
     Inr (sample_world\<lparr>calls :=
       [Wrappers_trbs2d 7 ''Row'' ''I'' ''Upper'' ''NonUnit'' 3 1 sample_ptr 3]\<rparr>) \<and>
   trbr2d sample_detail 0 1 0 0 1 (Unshaped (Object sample_vector)) sample_world =
     Inl No_matching_function \<and>
   trbr2d sample_detail 0 1 0 0 1 (Shaped 3 1 (Object sample_vector) 3) sample_world =
     Inr (sample_world\<lparr>calls :=
       [Wrappers_trbr2d 7 ''Row'' ''I'' ''Upper'' ''NonUnit'' 3 1 sample_ptr 3]\<rparr>)"
  by (simp add: trbs2d_data_def trbs2d_ptr_def wrappers_trbs2d_def
      trbr2d_data_def trbr2d_ptr_def wrappers_trbr2d_def
      sample_detail_def sample_world_def sample_vector_def sample_ptr_def)

text \<open>
  Claim C4 as amended. For the two general operations, send-general and receive-general,
  a call with the grid, the enumerated arguments and a container that has a size is
  accepted and hands the library the container's size as rows, 1 as columns and the size
  as leading dimension (the container having \<open>data()\<close> and a supported element type, which
  the call with explicit shape needs too). The two triangular operations have no such
  overload: whatever the buffer argument, a call without \<open>M\<close>, \<open>N\<close>, \<open>LDA\<close> is rejected
  at build time.
\<close>

theorem size_overload_general_only:
  fixes w :: "('c, 'b::len word, 'ty) world" and n :: "'s::len word"
    and a :: "('ty, 's word) argument"
  assumes "size_member A = Some n" and "data_member A = Some p"
    and "blacs_supported d (elem_type p)"
  shows
   "gebs2d d grid scope topo (Unshaped (Object A)) w =
      Inr (w\<lparr>calls := calls w @ [Wrappers_gebs2d (grid_context (grids w grid))
         (type_string_Scope d scope) (type_string_Topology d topo)
         (size_t_to_blacs_int n) 1 p (size_t_to_blacs_int n)]\<rparr>) \<and>
    gebr2d d grid scope topo (Unshaped (Object A)) w =
      Inr (w\<lparr>calls := calls w @ [Wrappers_gebr2d (grid_context (grids w grid))
         (type_string_Scope d scope) (type_string_Topology d topo)
         (size_t_to_blacs_int n) 1 p (size_t_to_blacs_int n)]\<rparr>) \<and>
    trbs2d d grid scope topo uplo diag (Unshaped a) w = Inl No_matching_function \<and>
    trbr2d d grid scope topo uplo diag (Unshaped a) w = Inl No_matching_function"
  using gebs2d_size_forward [OF assms, of grid scope topo w]
    gebr2d_size_forward [OF assms, of grid scope topo w]
  by simp

theorem size_overload_general_only_witness:
  "size_member sample_vector = Some 3 \<and>
   data_member sample_vector = Some sample_ptr \<and>
   blacs_supported sample_detail (elem_type sample_ptr) \<and>
   gebs2d sample_detail 0 1 0 (Unshaped (Object sample_vector)) sample_world =
     Inr (sample_world\<lparr>calls := [Wrappers_gebs2d 7 ''Row'' ''I'' 3 1 sample_ptr 3]\<rparr>) \<and>
   gebr2d sample_detail 0 1 0 (Unshaped (Object sample_vector)) sample_world =
     Inr (sample_world\<lparr>calls := [Wrappers_gebr2d 7 ''Row'' ''I'' 3 1 sample_ptr 3]\<rparr>) \<and>
   trbs2d sample_detail 0 1 0 0 1 (Unshaped (Pointer sample_ptr) ::
       (32 word, string, 64 word) buffer_args) sample_world = Inl No_matching_function \<and>
   trbr2d sample_detail 0 1 0 0 1 (Unshaped (Pointer sample_ptr) ::
       (32 word, string, 64 word) buffer_args) sample_world = Inl No_matching_function"
proof -
  have size: "size_member sample_vector = Some 3"
    by (simp add: sample_vector_def)
  have data: "data_member sample_vector = Some sample_ptr"
    by (simp add: sample_vector_def)
  have supported: "blacs_supported sample_detail (elem_type sample_ptr)"
    by (simp add: sample_detail_def sample_ptr_def)
  have conv: "(size_t_to_blacs_int (3 :: 64 word) :: 32 word) = 3"
    by (simp add: size_t_to_blacs_int_def)
  from size_overload_general_only
    [OF size data supported, of 0 1 0 sample_world 0 1 "Pointer sample_ptr"]
    size data supported conv
  show ?thesis
    by (simp add: sample_detail_def sample_world_def)
qed

end
